theory Spec2Isabelle
  imports Main
begin

section \<open>JavaScript strings as the handlers use them\<close>

text \<open>
  \<^verbatim>\<open>s.split(c)\<close> for a one-character separator: the pieces between the occurrences of
  the separator, so a string without the separator gives one piece and the empty string
  gives one empty piece.
\<close>

fun split_on :: "char \<Rightarrow> string \<Rightarrow> string list" where
  "split_on c [] = [[]]"
| "split_on c (x # xs) =
     (if x = c then [] # split_on c xs
      else (case split_on c xs of [] \<Rightarrow> [[x]] | w # ws \<Rightarrow> (x # w) # ws))"

text \<open>\<^verbatim>\<open>xs[i]\<close> on an array: \<open>None\<close> stands for \<^verbatim>\<open>undefined\<close>.\<close>

definition at_index :: "'a list \<Rightarrow> nat \<Rightarrow> 'a option" where
  "at_index xs i = (if i < length xs then Some (xs ! i) else None)"

text \<open>\<^verbatim>\<open>!token\<close> for a value that is a string or \<^verbatim>\<open>undefined\<close>.\<close>

definition falsy :: "string option \<Rightarrow> bool" where
  "falsy t = (t = None \<or> t = Some [])"

section \<open>The store\<close>

text \<open>
  The tables the handlers query, as lists of rows. Table names are taken without regard
  to letter case (\<^verbatim>\<open>Users\<close>/\<^verbatim>\<open>users\<close>, \<^verbatim>\<open>Appointments\<close>/\<^verbatim>\<open>appointments\<close>), and the
  timestamp columns are left out.
\<close>

record user_row =
  u_id :: int
  u_email :: string
  u_name :: string
  u_type :: string

record doctor_row =
  d_id :: int
  d_user_id :: "int option"
  d_name :: string
  d_specialization :: string
  d_email :: string
  d_open_hour :: string
  d_close_hour :: string
  d_is_active :: int

record appointment_row =
  a_id :: int
  a_patient_id :: int
  a_doctor_id :: int
  a_appointment_date :: string
  a_reason :: string
  a_status :: string
  a_notes :: "string option"

record db =
  users :: "user_row list"
  doctors :: "doctor_row list"
  appointments :: "appointment_row list"

section \<open>Responses\<close>

text \<open>The row the booking handler selects back: the appointment joined with both names.\<close>

record booked_row =
  b_id :: int
  b_patient_id :: int
  b_doctor_id :: int
  b_appointment_date :: string
  b_status :: string
  b_notes :: "string option"
  b_patient_name :: "string option"
  b_patient_email :: "string option"
  b_doctor_name :: "string option"
  b_specialization :: "string option"
  b_doctor_email :: "string option"

text \<open>The row \<^verbatim>\<open>GET /:id\<close> selects: the appointment with the two joined names.\<close>

record viewed_row =
  v_appointment :: appointment_row
  v_doctor_name :: string
  v_patient_name :: string

datatype payload =
    NoData
  | ErrorObject string
  | Errors "string list"
  | Booked "booked_row option"
  | Viewed viewed_row

record response =
  status :: nat
  success :: bool
  message :: string
  data :: payload

definition reply :: "nat \<Rightarrow> bool \<Rightarrow> string \<Rightarrow> response" where
  "reply c ok m = \<lparr>status = c, success = ok, message = m, data = NoData\<rparr>"

section \<open>middleware/auth.js\<close>

text \<open>
  \<^verbatim>\<open>req.user\<close>: the object the middleware attaches and the handlers read. Every property
  the code writes or reads is a field, \<open>None\<close> when the object has no such property.
\<close>

record identity =
  userId :: "int option"
  email :: "string option"
  name :: "string option"
  type :: "string option"
  id_field :: "int option"
  role :: "string option"

text \<open>
  \<^verbatim>\<open>jwt.verify(token, secret)\<close> belongs to the jsonwebtoken library: it returns the decoded
  payload or throws an error with a name. It is a parameter of the middleware here.
\<close>

record claims =
  c_userId :: int
  c_email :: string
  c_type :: string

datatype verify_result = Decoded claims | Throws string

datatype call = VerifyCall string | UserQuery int

datatype gate_result = Next identity | Reply response

text \<open>The \<^verbatim>\<open>catch\<close> block, by the name of the error caught.\<close>

definition auth_catch :: "string \<Rightarrow> response" where
  "auth_catch err_name =
     (if err_name = ''JsonWebTokenError''
      then \<lparr>status = 401, success = False, message = ''Invalid token'',
            data = ErrorObject err_name\<rparr>
      else if err_name = ''TokenExpiredError'' then reply 401 False ''Token expired''
      else reply 500 False ''Authentication error'')"

text \<open>
  \<^verbatim>\<open>authenticateToken\<close>. The result carries the calls made to the token library and to the
  store, in order. Reading \<^verbatim>\<open>.split\<close> of an absent header throws a \<^verbatim>\<open>TypeError\<close> inside the
  \<^verbatim>\<open>try\<close>.
\<close>

definition authenticateToken ::
  "(string \<Rightarrow> verify_result) \<Rightarrow> db \<Rightarrow> (string \<rightharpoonup> string) \<Rightarrow> call list \<times> gate_result" where
  "authenticateToken verify store headers =
     (case headers ''authorization'' of
        None \<Rightarrow> ([], Reply (auth_catch ''TypeError''))
      | Some authHeader \<Rightarrow>
          (let token = at_index (split_on CHR '' '' authHeader) 2 in
           if falsy token then ([], Reply (reply 401 False ''Access token required''))
           else
             (case verify (the token) of
                Throws err_name \<Rightarrow> ([VerifyCall (the token)], Reply (auth_catch err_name))
              | Decoded decoded \<Rightarrow>
                  (case filter (\<lambda>u. u_id u = c_userId decoded) (users store) of
                     [] \<Rightarrow> ([VerifyCall (the token), UserQuery (c_userId decoded)],
                            Reply (reply 401 False ''User not found''))
                   | user # _ \<Rightarrow>
                       ([VerifyCall (the token), UserQuery (c_userId decoded)],
                        Next \<lparr>userId = Some (u_id user), email = Some (u_email user),
                              name = Some (u_name user), type = Some (u_type user),
                              id_field = None, role = None\<rparr>)))))"

section \<open>Token issuance in the auth routes\<close>

text \<open>
  \<^verbatim>\<open>jwt.sign(payload, secret, {expiresIn: span})\<close> stamps the payload with the issue time
  and the expiry, in seconds. The span notation of the library is modelled for a decimal
  count followed by one of the unit letters \<^verbatim>\<open>s\<close>, \<^verbatim>\<open>m\<close>, \<^verbatim>\<open>h\<close>, \<^verbatim>\<open>d\<close>, which covers the
  two spans the routes pass. For every other span the model gives \<open>None\<close>; the library
  itself also reads weeks, years, fractions, capital letters and long unit names.
\<close>

definition decimal_digit :: "char \<Rightarrow> nat option" where
  "decimal_digit c =
     map_of [(CHR ''0'', 0), (CHR ''1'', 1), (CHR ''2'', 2), (CHR ''3'', 3), (CHR ''4'', 4),
             (CHR ''5'', 5), (CHR ''6'', 6), (CHR ''7'', 7), (CHR ''8'', 8), (CHR ''9'', 9)] c"

fun leading_digits :: "(char \<Rightarrow> nat option) \<Rightarrow> string \<Rightarrow> nat list" where
  "leading_digits dig [] = []"
| "leading_digits dig (c # cs) =
     (case dig c of None \<Rightarrow> [] | Some d \<Rightarrow> d # leading_digits dig cs)"

definition from_digits :: "nat \<Rightarrow> nat list \<Rightarrow> nat" where
  "from_digits radix ds = foldl (\<lambda>acc d. acc * radix + d) 0 ds"

definition unit_seconds :: "char \<Rightarrow> nat option" where
  "unit_seconds c =
     map_of [(CHR ''s'', 1), (CHR ''m'', 60), (CHR ''h'', 3600), (CHR ''d'', 86400)] c"

definition span_seconds :: "string \<Rightarrow> nat option" where
  "span_seconds span =
     (let ds = leading_digits decimal_digit span in
      if ds = [] then None
      else
        (case drop (length ds) span of
           [u] \<Rightarrow> map_option (\<lambda>k. from_digits 10 ds * k) (unit_seconds u)
         | _ \<Rightarrow> None))"

record token =
  payload :: claims
  iat :: int
  exp :: int

definition sign :: "claims \<Rightarrow> string \<Rightarrow> int \<Rightarrow> token option" where
  "sign p span now_s =
     map_option (\<lambda>n. \<lparr>payload = p, iat = now_s, exp = now_s + int n\<rparr>) (span_seconds span)"

text \<open>The token minted by \<^verbatim>\<open>POST /register\<close>; \<^verbatim>\<open>type || "patient"\<close> defaults the type.\<close>

definition register_token :: "int \<Rightarrow> string \<Rightarrow> string option \<Rightarrow> int \<Rightarrow> token option" where
  "register_token inserted_id email_in type_in now_s =
     sign \<lparr>c_userId = inserted_id, c_email = email_in,
           c_type = (if falsy type_in then ''patient'' else the type_in)\<rparr>
       ''7d'' now_s"

text \<open>The token minted by \<^verbatim>\<open>POST /login\<close> for the user row found.\<close>

definition login_token :: "user_row \<Rightarrow> int \<Rightarrow> token option" where
  "login_token user now_s =
     sign \<lparr>c_userId = u_id user, c_email = u_email user, c_type = u_type user\<rparr> ''24h'' now_s"

text \<open>The two places that mint a token, as one operation.\<close>

datatype mint = Register int string "string option" | Login user_row

definition issue :: "mint \<Rightarrow> int \<Rightarrow> token option" where
  "issue m now_s =
     (case m of
        Register inserted_id email_in type_in \<Rightarrow>
          register_token inserted_id email_in type_in now_s
      | Login user \<Rightarrow> login_token user now_s)"

section \<open>The role gate\<close>

text \<open>
  Modelled from the spec: \<^verbatim>\<open>authorizeRoles\<close> is imported by the route files from
  \<^verbatim>\<open>middleware/auth.js\<close>, which neither defines nor exports it. The definition follows the
  specification's \<^verbatim>\<open>authorize(context, allowedRoles)\<close>: it succeeds when the role of the
  context is in the allow-list and fails with \<^verbatim>\<open>Forbidden\<close> otherwise.
\<close>

datatype gate_error = Forbidden

definition http_status :: "gate_error \<Rightarrow> nat" where
  "http_status e = (case e of Forbidden \<Rightarrow> 403)"

definition authorizeRoles :: "string list \<Rightarrow> identity \<Rightarrow> gate_error + unit" where
  \<comment> \<open>Modelled from the spec: succeeds iff the role of the context is in the allow-list.\<close>
  "authorizeRoles allowedRoles context =
     (case role context of
        None \<Rightarrow> Inl Forbidden
      | Some r \<Rightarrow> if r \<in> set allowedRoles then Inr () else Inl Forbidden)"

section \<open>Numbers and dates in the appointment handlers\<close>

text \<open>
  \<^verbatim>\<open>parseInt(s)\<close> without a radix, on ASCII strings: leading white space, an optional sign,
  an optional \<^verbatim>\<open>0x\<close> prefix, then the longest run of digits; \<open>None\<close> is \<^verbatim>\<open>NaN\<close>. The
  result is the exact integer; JavaScript rounds it to a double beyond \<open>2^53\<close>, far from any
  hour.
\<close>

definition is_space :: "char \<Rightarrow> bool" where
  "is_space c = (c \<in> set [CHR '' '', CHR 0x09, CHR 0x0A, CHR 0x0B, CHR 0x0C, CHR 0x0D])"

definition hex_digit :: "char \<Rightarrow> nat option" where
  "hex_digit c =
     (case decimal_digit c of
        Some d \<Rightarrow> Some d
      | None \<Rightarrow>
          map_of [(CHR ''a'', 10), (CHR ''b'', 11), (CHR ''c'', 12), (CHR ''d'', 13),
                  (CHR ''e'', 14), (CHR ''f'', 15), (CHR ''A'', 10), (CHR ''B'', 11),
                  (CHR ''C'', 12), (CHR ''D'', 13), (CHR ''E'', 14), (CHR ''F'', 15)] c)"

definition parseInt :: "string \<Rightarrow> int option" where
  "parseInt s =
     (let t = dropWhile is_space s;
          negative = (take 1 t = ''-'');
          u = (if take 1 t = ''-'' \<or> take 1 t = ''+'' then drop 1 t else t);
          hex = (take 2 u = ''0x'' \<or> take 2 u = ''0X'');
          ds = (if hex then leading_digits hex_digit (drop 2 u)
                else leading_digits decimal_digit u);
          n = int (from_digits (if hex then 16 else 10) ds)
      in if ds = [] then None else Some (if negative then - n else n))"

text \<open>\<^verbatim>\<open>parseInt(s.split(':')[0])\<close>.\<close>

definition hour_part :: "string \<Rightarrow> int option" where
  "hour_part s = (case split_on CHR '':'' s of [] \<Rightarrow> None | p # _ \<Rightarrow> parseInt p)"

text \<open>Comparisons of numbers that may be \<^verbatim>\<open>NaN\<close>: a comparison with \<^verbatim>\<open>NaN\<close> is false.\<close>

definition js_le :: "int option \<Rightarrow> int option \<Rightarrow> bool" where
  "js_le a b = (case (a, b) of (Some x, Some y) \<Rightarrow> x \<le> y | _ \<Rightarrow> False)"

definition js_lt :: "int option \<Rightarrow> int option \<Rightarrow> bool" where
  "js_lt a b = (case (a, b) of (Some x, Some y) \<Rightarrow> x < y | _ \<Rightarrow> False)"

definition js_ge :: "int option \<Rightarrow> int option \<Rightarrow> bool" where
  "js_ge a b = (case (a, b) of (Some x, Some y) \<Rightarrow> x \<ge> y | _ \<Rightarrow> False)"

section \<open>routes/appointments.js\<close>

text \<open>
  The handlers take the store and return it with the response. \<^verbatim>\<open>pool\<close> is the mysql2
  pool: \<^verbatim>\<open>pool.execute\<close> throws a \<^verbatim>\<open>TypeError\<close> when a bind parameter is \<^verbatim>\<open>undefined\<close>, and
  the handler's \<^verbatim>\<open>catch\<close> turns that into its 500 answer. Path parameters and the body's
  \<^verbatim>\<open>doctor_id\<close> are taken as the integers the store compares them as, and the store keeps
  an appointment's date as the text it was given.
\<close>

subsection \<open>Create new appointment\<close>

text \<open>
  \<^verbatim>\<open>req.body\<close>. The request carries \<^verbatim>\<open>appointment_date\<close> as text; the route's validator chain
  \<^verbatim>\<open>body('appointment_date').isISO8601().toDate()\<close> ends in a sanitizer, which writes its
  result back into the body before the handler runs. So the record is taken over the type of
  the date: text in the request, a \<open>date_value\<close> where the handler reads it.
\<close>

record 'd booking_body =
  doctor_id :: int
  appointment_date :: 'd
  reason :: string

text \<open>
  What the handler can find in \<^verbatim>\<open>appointment_date\<close>: text, a \<^verbatim>\<open>Date\<close> object (with its
  instant in milliseconds) or \<^verbatim>\<open>null\<close>.
\<close>

datatype date_value = DateText string | DateObject int | DateNull

text \<open>
  The \<^verbatim>\<open>toDate()\<close> sanitizer: \<^verbatim>\<open>new Date(text)\<close> when the text parses, \<^verbatim>\<open>null\<close> otherwise.
  \<open>date_ms\<close> is the date parser of the runtime, in milliseconds, \<open>None\<close> for an invalid
  date.
\<close>

definition toDate :: "(string \<Rightarrow> int option) \<Rightarrow> string \<Rightarrow> date_value" where
  "toDate date_ms text = (case date_ms text of Some t \<Rightarrow> DateObject t | None \<Rightarrow> DateNull)"

text \<open>
  \<^verbatim>\<open>new Date(`${appointment_date}`)\<close>: the value is turned into text and parsed. The text of a
  \<^verbatim>\<open>Date\<close> keeps its instant to the second and parses back to it; the text of \<^verbatim>\<open>null\<close> is
  \<^verbatim>\<open>null\<close>.
\<close>

definition appointmentDateTime :: "(string \<Rightarrow> int option) \<Rightarrow> date_value \<Rightarrow> int option" where
  "appointmentDateTime date_ms v =
     (case v of
        DateText text \<Rightarrow> date_ms text
      | DateObject t \<Rightarrow> Some ((t div 1000) * 1000)
      | DateNull \<Rightarrow> date_ms ''null'')"

text \<open>\<^verbatim>\<open>const patient_id = req.user.id\<close>.\<close>

definition patient_id :: "identity \<Rightarrow> int option" where
  "patient_id user = id_field user"

text \<open>The rows of the doctor query: \<^verbatim>\<open>WHERE id = ? AND is_active = 1\<close>.\<close>

definition active_doctors :: "db \<Rightarrow> int \<Rightarrow> doctor_row list" where
  "active_doctors store did = filter (\<lambda>d. d_id d = did \<and> d_is_active d = 1) (doctors store)"

text \<open>
  \<^verbatim>\<open>WHERE doctor_id = ? AND appointment_date = ? AND status != "cancelled"\<close> and the same
  for \<^verbatim>\<open>patient_id\<close>.
\<close>

definition existingAppointments :: "db \<Rightarrow> int \<Rightarrow> string \<Rightarrow> appointment_row list" where
  "existingAppointments store did date =
     filter (\<lambda>a. a_doctor_id a = did \<and> a_appointment_date a = date \<and> a_status a \<noteq> ''cancelled'')
       (appointments store)"

definition patientAppointments :: "db \<Rightarrow> int \<Rightarrow> string \<Rightarrow> appointment_row list" where
  "patientAppointments store pid date =
     filter (\<lambda>a. a_patient_id a = pid \<and> a_appointment_date a = date \<and> a_status a \<noteq> ''cancelled'')
       (appointments store)"

text \<open>\<^verbatim>\<open>result.insertId\<close>: the key the store gives the new row, above every key in use.\<close>

definition insertId :: "appointment_row list \<Rightarrow> int" where
  "insertId rows = fold max (map a_id rows) 0 + 1"

definition insert_appointment :: "db \<Rightarrow> int \<Rightarrow> int \<Rightarrow> string \<Rightarrow> string \<Rightarrow> db" where
  "insert_appointment store pid did date why =
     store\<lparr>appointments := appointments store @
       [\<lparr>a_id = insertId (appointments store), a_patient_id = pid, a_doctor_id = did,
         a_appointment_date = date, a_reason = why, a_status = ''scheduled'',
         a_notes = None\<rparr>]\<rparr>"

text \<open>
  The select after the insert, with its two left joins; \<^verbatim>\<open>appointments[0]\<close> is the first
  row, \<open>None\<close> when there is none.
\<close>

definition select_created :: "db \<Rightarrow> int \<Rightarrow> booked_row option" where
  "select_created store appointmentId =
     (case filter (\<lambda>a. a_id a = appointmentId) (appointments store) of
        [] \<Rightarrow> None
      | a # _ \<Rightarrow>
          (let p = find (\<lambda>u. u_id u = a_patient_id a) (users store);
               d = find (\<lambda>d. d_id d = a_doctor_id a) (doctors store)
           in Some \<lparr>b_id = a_id a, b_patient_id = a_patient_id a, b_doctor_id = a_doctor_id a,
                    b_appointment_date = a_appointment_date a, b_status = a_status a,
                    b_notes = a_notes a,
                    b_patient_name = map_option u_name p, b_patient_email = map_option u_email p,
                    b_doctor_name = map_option d_name d,
                    b_specialization = map_option d_specialization d,
                    b_doctor_email = map_option d_email d\<rparr>))"

definition failed_to_book :: response where
  "failed_to_book = reply 500 False ''Failed to book appointment''"

text \<open>
  The part of the handler after the working-hours check: the two slot queries, the insert
  and the answer.
\<close>

definition book_slot :: "db \<Rightarrow> int option \<Rightarrow> string booking_body \<Rightarrow> db \<times> response" where
  "book_slot store pid body =
     (if existingAppointments store (doctor_id body) (appointment_date body) \<noteq> []
      then (store, reply 400 False ''This time slot is already booked'')
      else
        (case pid of
           None \<Rightarrow> (store, failed_to_book)
         | Some p \<Rightarrow>
             if patientAppointments store p (appointment_date body) \<noteq> []
             then (store, reply 400 False ''You already have an appointment at this time'')
             else
               (let appointmentId = insertId (appointments store);
                    store' = insert_appointment store p (doctor_id body)
                               (appointment_date body) (reason body)
                in (store', \<lparr>status = 201, success = True,
                             message = ''Appointment booked successfully'',
                             data = Booked (select_created store' appointmentId)\<rparr>))))"

text \<open>
  The handler of \<^verbatim>\<open>POST /\<close>. \<open>errors\<close> is what the validators reported and \<open>now\<close> the
  clock. Only text has \<^verbatim>\<open>.split\<close>: on a \<^verbatim>\<open>Date\<close> or on \<^verbatim>\<open>null\<close> the call throws, as does
  reading \<^verbatim>\<open>.split\<close> of the missing second piece of a text without a \<^verbatim>\<open>T\<close>; the \<^verbatim>\<open>catch\<close>
  answers 500.
\<close>

definition create_appointment ::
  "(string \<Rightarrow> int option) \<Rightarrow> int \<Rightarrow> db \<Rightarrow> identity \<Rightarrow> string list
     \<Rightarrow> date_value booking_body \<Rightarrow> db \<times> response" where
  "create_appointment date_ms now store user errors body =
     (if errors \<noteq> []
      then (store, \<lparr>status = 400, success = False, message = ''Validation errors'',
                    data = Errors errors\<rparr>)
      else
        (case active_doctors store (doctor_id body) of
           [] \<Rightarrow> (store, reply 404 False ''Doctor not found'')
         | doctor # _ \<Rightarrow>
             if js_le (appointmentDateTime date_ms (appointment_date body)) (Some now)
             then (store, reply 400 False ''Appointment must be scheduled for a future date'')
             else
               (case appointment_date body of
                  DateObject _ \<Rightarrow> (store, failed_to_book)
                | DateNull \<Rightarrow> (store, failed_to_book)
                | DateText text \<Rightarrow>
                    (case at_index (split_on CHR ''T'' text) 1 of
                       None \<Rightarrow> (store, failed_to_book)
                     | Some time \<Rightarrow>
                         (let appointmentHour = hour_part time;
                              openHour = hour_part (d_open_hour doctor);
                              closeHour = hour_part (d_close_hour doctor)
                          in if js_lt appointmentHour openHour
                                \<or> js_ge appointmentHour closeHour
                             then (store, reply 400 False
                                     ''Appointment time must be within doctor's working hours'')
                             else book_slot store (patient_id user)
                                    \<lparr>doctor_id = doctor_id body, appointment_date = text,
                                     reason = reason body\<rparr>)))))"

text \<open>
  The route: the middleware, then the validator chain with its sanitizer, then the
  handler.
\<close>

definition post_appointment ::
  "(string \<Rightarrow> verify_result) \<Rightarrow> (string \<Rightarrow> int option) \<Rightarrow> int \<Rightarrow> db
     \<Rightarrow> (string \<rightharpoonup> string) \<Rightarrow> string list \<Rightarrow> string booking_body \<Rightarrow> db \<times> response" where
  "post_appointment verify date_ms now store headers errors body =
     (case snd (authenticateToken verify store headers) of
        Reply r \<Rightarrow> (store, r)
      | Next user \<Rightarrow>
          create_appointment date_ms now store user errors
            \<lparr>doctor_id = doctor_id body,
             appointment_date = toDate date_ms (appointment_date body),
             reason = reason body\<rparr>)"

subsection \<open>Update appointment status\<close>

definition update_status :: "db \<Rightarrow> int \<Rightarrow> string option \<Rightarrow> db \<times> response" where
  "update_status store i new_status =
     (if falsy new_status \<or> the new_status \<notin> set [''scheduled'', ''completed'', ''canceled'']
      then (store, reply 400 False ''Invalid status provided.'')
      else if filter (\<lambda>a. a_id a = i) (appointments store) = []
      then (store, reply 404 False ''Appointment not found'')
      else (store\<lparr>appointments :=
                    map (\<lambda>a. if a_id a = i then a\<lparr>a_status := the new_status\<rparr> else a)
                      (appointments store)\<rparr>,
            reply 200 True ''Appointment status updated successfully''))"

subsection \<open>Cancel appointment\<close>

text \<open>\<^verbatim>\<open>SELECT id FROM doctors WHERE id = ? AND user_id = ?\<close>.\<close>

definition doctorCheck :: "db \<Rightarrow> int \<Rightarrow> int \<Rightarrow> doctor_row list" where
  "doctorCheck store did uid =
     filter (\<lambda>d. d_id d = did \<and> d_user_id d = Some uid) (doctors store)"

text \<open>The update at the end of the handler; the notes are set when a reason is given.\<close>

definition set_cancelled :: "db \<Rightarrow> int \<Rightarrow> string option \<Rightarrow> db" where
  "set_cancelled store i why =
     store\<lparr>appointments :=
       map (\<lambda>a. if a_id a = i
                then (if falsy why then a\<lparr>a_status := ''cancelled''\<rparr>
                      else a\<lparr>a_status := ''cancelled'', a_notes := why\<rparr>)
                else a)
         (appointments store)\<rparr>"

definition cancel_denied :: response where
  "cancel_denied =
     reply 403 False ''Access denied. You can only cancel your own appointments.''"

definition do_cancel :: "db \<Rightarrow> int \<Rightarrow> string option \<Rightarrow> db \<times> response" where
  "do_cancel store i why =
     (set_cancelled store i why, reply 200 True ''Appointment cancelled successfully'')"

definition cancel_appointment :: "db \<Rightarrow> identity \<Rightarrow> int \<Rightarrow> string option \<Rightarrow> db \<times> response" where
  "cancel_appointment store user i why =
     (case filter (\<lambda>a. a_id a = i) (appointments store) of
        [] \<Rightarrow> (store, reply 404 False ''Appointment not found'')
      | appointment # _ \<Rightarrow>
          if a_status appointment = ''cancelled''
          then (store, reply 400 False ''Appointment is already cancelled'')
          else if a_status appointment = ''completed''
          then (store, reply 400 False ''Cannot cancel completed appointment'')
          else if role user = Some ''patient'' \<and> Some (a_patient_id appointment) \<noteq> id_field user
          then (store, cancel_denied)
          else if role user = Some ''doctor''
          then
            (case id_field user of
               None \<Rightarrow> (store, reply 500 False ''Failed to cancel appointment'')
             | Some uid \<Rightarrow>
                 if doctorCheck store (a_doctor_id appointment) uid = []
                 then (store, cancel_denied)
                 else do_cancel store i why)
          else do_cancel store i why)"

definition put_cancel ::
  "(string \<Rightarrow> verify_result) \<Rightarrow> db \<Rightarrow> (string \<rightharpoonup> string) \<Rightarrow> int \<Rightarrow> string option
     \<Rightarrow> db \<times> response" where
  "put_cancel verify store headers i why =
     (case snd (authenticateToken verify store headers) of
        Reply r \<Rightarrow> (store, r)
      | Next user \<Rightarrow> cancel_appointment store user i why)"

subsection \<open>Get all appointments, get appointment by id, statistics\<close>

text \<open>
  What \<^verbatim>\<open>GET /\<close> hands to \<^verbatim>\<open>pool.execute\<close>: which of the two selects (by \<^verbatim>\<open>doctor_id\<close> in the
  doctor branch, by \<^verbatim>\<open>patient_id\<close> otherwise), whether the status filter is appended, and the
  bind parameters.
\<close>

datatype bind = BUndefined | BInt int | BStr string

datatype listing = ByDoctor | ByPatient

record list_query =
  q_listing :: listing
  q_status_filter :: bool
  q_params :: "bind list"

definition bind_id :: "int option \<Rightarrow> bind" where
  "bind_id v = (case v of None \<Rightarrow> BUndefined | Some n \<Rightarrow> BInt n)"

definition appointments_query :: "identity \<Rightarrow> string option \<Rightarrow> list_query" where
  "appointments_query user status_q =
     (let filtered = (\<not> falsy status_q
                      \<and> the status_q \<in> set [''scheduled'', ''completed'', ''canceled''])
      in \<lparr>q_listing = (if role user = Some ''doctor'' then ByDoctor else ByPatient),
          q_status_filter = filtered,
          q_params = bind_id (id_field user) # (if filtered then [BStr (the status_q)] else [])\<rparr>)"

text \<open>The bind parameters of the statistics queries: the caller's id in the doctor branch.\<close>

definition stats_params :: "identity \<Rightarrow> bind list" where
  "stats_params user = (if role user = Some ''doctor'' then [bind_id (id_field user)] else [])"

text \<open>The select of \<^verbatim>\<open>GET /:id\<close>, with its two inner joins.\<close>

definition select_joined :: "db \<Rightarrow> int \<Rightarrow> viewed_row list" where
  "select_joined store i =
     [\<lparr>v_appointment = a, v_doctor_name = d_name d, v_patient_name = u_name p\<rparr>.
        a \<leftarrow> filter (\<lambda>a. a_id a = i) (appointments store),
        d \<leftarrow> filter (\<lambda>d. d_id d = a_doctor_id a) (doctors store),
        p \<leftarrow> filter (\<lambda>p. u_id p = a_patient_id a) (users store)]"

definition get_appointment :: "db \<Rightarrow> identity \<Rightarrow> int \<Rightarrow> response" where
  "get_appointment store user i =
     (case select_joined store i of
        [] \<Rightarrow> reply 404 False ''Appointment not found''
      | appointment # _ \<Rightarrow>
          if role user = Some ''patient''
             \<and> Some (a_patient_id (v_appointment appointment)) \<noteq> id_field user
          then reply 403 False ''Access denied''
          else if role user = Some ''doctor''
          then
            (case id_field user of
               None \<Rightarrow> reply 500 False ''Failed to get appointment''
             | Some uid \<Rightarrow>
                 if doctorCheck store (a_doctor_id (v_appointment appointment)) uid = []
                 then reply 403 False ''Access denied''
                 else \<lparr>status = 200, success = True, message = [], data = Viewed appointment\<rparr>)
          else \<lparr>status = 200, success = True, message = [], data = Viewed appointment\<rparr>)"

section \<open>The booking rules in the specification's words\<close>

text \<open>
  The five checks of the specification, in its order, over what each check looks at; the
  result is the error of the first check that fails.
\<close>

datatype booking_error =
  DoctorNotFound | PastDateRejected | OutsideWorkingHours | SlotAlreadyBooked
  | PatientDoubleBooking

record booking_facts =
  doctor_active :: bool
  in_future :: bool
  hour :: int
  open_hour :: int
  close_hour :: int
  doctor_slot_taken :: bool
  patient_slot_taken :: bool

definition first_failing_check :: "booking_facts \<Rightarrow> booking_error option" where
  "first_failing_check f =
     (if \<not> doctor_active f then Some DoctorNotFound
      else if \<not> in_future f then Some PastDateRejected
      else if \<not> (open_hour f \<le> hour f \<and> hour f < close_hour f) then Some OutsideWorkingHours
      else if doctor_slot_taken f then Some SlotAlreadyBooked
      else if patient_slot_taken f then Some PatientDoubleBooking
      else None)"

text \<open>The answer the handler gives for each of the errors.\<close>

definition error_reply :: "booking_error \<Rightarrow> response" where
  "error_reply e =
     (case e of
        DoctorNotFound \<Rightarrow> reply 404 False ''Doctor not found''
      | PastDateRejected \<Rightarrow> reply 400 False ''Appointment must be scheduled for a future date''
      | OutsideWorkingHours \<Rightarrow>
          reply 400 False ''Appointment time must be within doctor's working hours''
      | SlotAlreadyBooked \<Rightarrow> reply 400 False ''This time slot is already booked''
      | PatientDoubleBooking \<Rightarrow> reply 400 False ''You already have an appointment at this time'')"

section \<open>Instances of the parameters\<close>

text \<open>
  A token library that decodes every token to the same payload, and a date parser that
  knows one text, for the concrete cases below.
\<close>

definition decode_as :: "claims \<Rightarrow> string \<Rightarrow> verify_result" where
  "decode_as c t = Decoded c"

definition parse_only :: "string \<Rightarrow> int \<Rightarrow> string \<Rightarrow> int option" where
  "parse_only text ms s = (if s = text then Some ms else None)"

text \<open>
  A small store: two patients, one doctor with working hours 09:00 to 17:00, no
  appointment yet; a request header that carries a token in the third place; Monday
  2026-11-09 10:00 with its instant, and the clock a week before.
\<close>

definition alice :: user_row where
  "alice = \<lparr>u_id = 1, u_email = ''alice@example.org'', u_name = ''Alice'', u_type = ''patient''\<rparr>"

definition bob :: user_row where
  "bob = \<lparr>u_id = 2, u_email = ''bob@example.org'', u_name = ''Bob'', u_type = ''patient''\<rparr>"

definition doctor7 :: doctor_row where
  "doctor7 = \<lparr>d_id = 7, d_user_id = Some 3, d_name = ''Grey'', d_specialization = ''cardiology'',
               d_email = ''grey@example.org'', d_open_hour = ''09:00:00'',
               d_close_hour = ''17:00:00'', d_is_active = 1\<rparr>"

definition clinic :: db where
  "clinic = \<lparr>users = [alice, bob], doctors = [doctor7], appointments = []\<rparr>"

definition alice_claims :: claims where
  "alice_claims = \<lparr>c_userId = 1, c_email = ''alice@example.org'', c_type = ''patient''\<rparr>"

definition three_part_header :: "string \<rightharpoonup> string" where
  "three_part_header = [''authorization'' \<mapsto> ''Token Bearer abc.def.ghi'']"

definition monday_10 :: string where
  "monday_10 = ''2026-11-09T10:00:00''"

definition monday_10_ms :: int where
  "monday_10_ms = 1794218400000"

definition week_before_ms :: int where
  "week_before_ms = 1793620800000"

definition checkup :: "string booking_body" where
  "checkup = \<lparr>doctor_id = 7, appointment_date = monday_10, reason = ''checkup''\<rparr>"

text \<open>The next morning at 08:00, before the doctor's hours, with its instant.\<close>

definition tuesday_08 :: string where
  "tuesday_08 = ''2026-11-03T08:00:00''"

definition tuesday_08_ms :: int where
  "tuesday_08_ms = 1793692800000"

definition early_visit :: "string booking_body" where
  "early_visit = \<lparr>doctor_id = 7, appointment_date = tuesday_08, reason = ''checkup''\<rparr>"

definition bob_claims :: claims where
  "bob_claims = \<lparr>c_userId = 2, c_email = ''bob@example.org'', c_type = ''patient''\<rparr>"

text \<open>Alice's appointment with the doctor, scheduled.\<close>

definition alice_visit :: appointment_row where
  "alice_visit = \<lparr>a_id = 1, a_patient_id = 1, a_doctor_id = 7, a_appointment_date = monday_10,
                   a_reason = ''checkup'', a_status = ''scheduled'', a_notes = None\<rparr>"


section \<open>Properties of the middleware\<close>

lemma split_on_not_Nil: "split_on c s \<noteq> []"
  by (induction s) (auto split: list.splits)

text \<open>
  C2. A request without an Authorization header is to be rejected with the 401 answer for
  a missing token. The code answers 500 \<^verbatim>\<open>Authentication error\<close>: the header is read
  before it is tested.
\<close>

theorem missing_header_gives_500:
  assumes "headers ''authorization'' = None"
  shows "authenticateToken verify store headers =
           ([], Reply \<lparr>status = 500, success = False, message = ''Authentication error'',
                       data = NoData\<rparr>)"
  using assms by (simp add: authenticateToken_def auth_catch_def reply_def)

theorem missing_header_gives_500_witness:
  "authenticateToken (decode_as alice_claims) clinic [''content-type'' \<mapsto> ''application/json'']
     = ([], Reply \<lparr>status = 500, success = False, message = ''Authentication error'',
                   data = NoData\<rparr>)"
proof -
  have absent: "[''content-type'' \<mapsto> ''application/json''] ''authorization'' = None"
    by simp
  show ?thesis
    using missing_header_gives_500
      [where headers = "[''content-type'' \<mapsto> ''application/json'']", OF absent]
    by blast
qed

text \<open>
  C9. The token is the piece at index 2 of the header split at single spaces. A header of
  exactly two pieces has no such piece: the answer is 401 \<^verbatim>\<open>Access token required\<close> and
  neither the token library nor the store is called.
\<close>

theorem two_part_header_rejected:
  assumes "headers ''authorization'' = Some h"
    and "length (split_on CHR '' '' h) = 2"
  shows "at_index (split_on CHR '' '' h) 2 = None
    \<and> authenticateToken verify store headers =
         ([], Reply \<lparr>status = 401, success = False, message = ''Access token required'',
                     data = NoData\<rparr>)"
  using assms by (simp add: authenticateToken_def at_index_def falsy_def reply_def)

theorem two_part_header_rejected_witness:
  "authenticateToken (decode_as alice_claims) clinic
     [''authorization'' \<mapsto> ''Bearer abc.def.ghi'']
   = ([], Reply \<lparr>status = 401, success = False, message = ''Access token required'',
                 data = NoData\<rparr>)"
proof -
  have h1: "[''authorization'' \<mapsto> ''Bearer abc.def.ghi''] ''authorization''
              = Some ''Bearer abc.def.ghi''"
    by simp
  have h2: "length (split_on CHR '' '' ''Bearer abc.def.ghi'') = 2"
    by simp
  show ?thesis
    using two_part_header_rejected
      [where headers = "[''authorization'' \<mapsto> ''Bearer abc.def.ghi'']"
         and h = "''Bearer abc.def.ghi''", OF h1 h2]
    by blast
qed

text \<open>
  C1. The role gate succeeds exactly when the role of the context is in the allow-list and
  fails with \<^verbatim>\<open>Forbidden\<close>, status 403, exactly when it is not.
\<close>

theorem role_gate_iff:
  "(authorizeRoles allowedRoles context = Inr ())
     = (\<exists>r. role context = Some r \<and> r \<in> set allowedRoles)
   \<and> (authorizeRoles allowedRoles context = Inl Forbidden)
     = (\<not> (\<exists>r. role context = Some r \<and> r \<in> set allowedRoles))
   \<and> http_status Forbidden = 403"
  by (auto simp: authorizeRoles_def http_status_def split: option.splits)

section \<open>Properties of token issuance\<close>

lemma span_7d: "span_seconds ''7d'' = Some 604800"
  by (simp add: span_seconds_def decimal_digit_def from_digits_def unit_seconds_def)

lemma span_24h: "span_seconds ''24h'' = Some 86400"
  by (simp add: span_seconds_def decimal_digit_def from_digits_def unit_seconds_def)

text \<open>
  C8. Every token minted is stamped with the issue time, and it expires 7 days later when
  minted at registration and 24 hours later when minted at login.
\<close>

theorem token_lifetimes:
  "\<exists>t. issue m now_s = Some t \<and> iat t = now_s
     \<and> exp t - iat t = (case m of Register _ _ _ \<Rightarrow> 7 * 24 * 3600 | Login _ \<Rightarrow> 24 * 3600)"
  by (cases m)
    (simp_all add: issue_def register_token_def login_token_def sign_def span_7d span_24h)

section \<open>Where the identity comes from\<close>

lemma find_filter: "find P xs = (case filter P xs of [] \<Rightarrow> None | x # _ \<Rightarrow> Some x)"
  by (induction xs) auto

text \<open>
  C7, as the code has it. After a token is verified, the answer is 401 \<^verbatim>\<open>User not found\<close>
  when the store has no row for the token's user id; otherwise the identity attached has the
  id, email, name and type of the row found, and no \<^verbatim>\<open>id\<close> or \<^verbatim>\<open>role\<close>. Of the token's
  payload only \<^verbatim>\<open>userId\<close> is read.
\<close>

theorem identity_from_row:
  assumes "headers ''authorization'' = Some h"
    and "at_index (split_on CHR '' '' h) 2 = Some tok" and "tok \<noteq> []"
    and "verify tok = Decoded d"
  shows "snd (authenticateToken verify store headers) =
           (case find (\<lambda>u. u_id u = c_userId d) (users store) of
              None \<Rightarrow> Reply (reply 401 False ''User not found'')
            | Some u \<Rightarrow> Next \<lparr>userId = Some (u_id u), email = Some (u_email u),
                               name = Some (u_name u), type = Some (u_type u),
                               id_field = None, role = None\<rparr>)"
  using assms
  by (simp add: authenticateToken_def falsy_def find_filter split: list.splits)

lemma three_part_token:
  "three_part_header ''authorization'' = Some ''Token Bearer abc.def.ghi''"
  "at_index (split_on CHR '' '' ''Token Bearer abc.def.ghi'') 2 = Some ''abc.def.ghi''"
  by (simp_all add: three_part_header_def at_index_def)

theorem identity_from_row_witness:
  "snd (authenticateToken (decode_as alice_claims) clinic three_part_header) =
     Next \<lparr>userId = Some 1, email = Some ''alice@example.org'', name = Some ''Alice'',
           type = Some ''patient'', id_field = None, role = None\<rparr>"
proof -
  have tok: "''abc.def.ghi'' \<noteq> []" by simp
  have dec: "decode_as alice_claims ''abc.def.ghi'' = Decoded alice_claims"
    by (simp add: decode_as_def)
  show ?thesis
    using identity_from_row [where store = clinic and headers = three_part_header
        and verify = "decode_as alice_claims", OF three_part_token tok dec]
    by (simp add: clinic_def alice_def bob_def alice_claims_def)
qed

text \<open>
  The claim as the specification states it fails: with one token, whose payload says
  \<^verbatim>\<open>patient\<close> and Alice's address, a store whose row for the user says \<^verbatim>\<open>admin\<close> and
  another address gives an identity with that type and that address.
\<close>

theorem token_claims_counterexample:
  "snd (authenticateToken (decode_as alice_claims)
          \<lparr>users = [alice\<lparr>u_email := ''root@example.org'', u_type := ''admin''\<rparr>],
           doctors = [], appointments = []\<rparr>
          three_part_header)
     = Next \<lparr>userId = Some 1, email = Some ''root@example.org'', name = Some ''Alice'',
             type = Some ''admin'', id_field = None, role = None\<rparr>
   \<and> snd (authenticateToken (decode_as alice_claims)
          \<lparr>users = [alice], doctors = [], appointments = []\<rparr>
          three_part_header)
     = Next \<lparr>userId = Some 1, email = Some ''alice@example.org'', name = Some ''Alice'',
             type = Some ''patient'', id_field = None, role = None\<rparr>"
  by (simp add: authenticateToken_def three_part_header_def at_index_def falsy_def
      decode_as_def alice_claims_def alice_def)

section \<open>The booking handler against the booking rules\<close>

lemma fold_max_ge: "(b::int) \<le> fold max xs b"
  by (induction xs arbitrary: b) (auto intro: order_trans [OF max.cobounded2])

lemma fold_max_upper: "x \<in> set xs \<Longrightarrow> (x::int) \<le> fold max xs b"
proof (induction xs arbitrary: b)
  case Nil
  then show ?case by simp
next
  case (Cons y ys)
  show ?case
  proof (cases "x = y")
    case True
    have "y \<le> max y b" by simp
    also have "\<dots> \<le> fold max ys (max y b)" by (rule fold_max_ge)
    finally show ?thesis using True by simp
  next
    case False
    with Cons show ?thesis by simp
  qed
qed

lemma insertId_fresh: "a \<in> set rows \<Longrightarrow> a_id a < insertId rows"
  using fold_max_upper [of "a_id a" "map a_id rows" 0] by (simp add: insertId_def)

lemma insertId_unused: "filter (\<lambda>a. a_id a = insertId rows) rows = []"
  using insertId_fresh by (fastforce simp: filter_empty_conv)

text \<open>The select after the insert finds the row just inserted.\<close>

lemma select_created_insert:
  "select_created (insert_appointment store pid did date why) (insertId (appointments store)) =
     Some \<lparr>b_id = insertId (appointments store), b_patient_id = pid, b_doctor_id = did,
            b_appointment_date = date, b_status = ''scheduled'', b_notes = None,
            b_patient_name = map_option u_name (find (\<lambda>u. u_id u = pid) (users store)),
            b_patient_email = map_option u_email (find (\<lambda>u. u_id u = pid) (users store)),
            b_doctor_name = map_option d_name (find (\<lambda>d. d_id d = did) (doctors store)),
            b_specialization =
              map_option d_specialization (find (\<lambda>d. d_id d = did) (doctors store)),
            b_doctor_email = map_option d_email (find (\<lambda>d. d_id d = did) (doctors store))\<rparr>"
  by (simp add: select_created_def insert_appointment_def insertId_unused Let_def)

lemma book_slot_cases:
  "book_slot store pid body =
     (if \<exists>a \<in> set (appointments store). a_doctor_id a = doctor_id body
            \<and> a_appointment_date a = appointment_date body \<and> a_status a \<noteq> ''cancelled''
      then (store, error_reply SlotAlreadyBooked)
      else if \<exists>a \<in> set (appointments store). Some (a_patient_id a) = pid
            \<and> a_appointment_date a = appointment_date body \<and> a_status a \<noteq> ''cancelled''
      then (store, error_reply PatientDoubleBooking)
      else
        (case pid of
           None \<Rightarrow> (store, failed_to_book)
         | Some p \<Rightarrow>
             (insert_appointment store p (doctor_id body) (appointment_date body) (reason body),
              \<lparr>status = 201, success = True, message = ''Appointment booked successfully'',
               data = Booked (select_created
                 (insert_appointment store p (doctor_id body) (appointment_date body) (reason body))
                 (insertId (appointments store)))\<rparr>)))"
  by (auto simp: book_slot_def existingAppointments_def patientAppointments_def error_reply_def
      filter_empty_conv Let_def split: option.splits)

lemma active_doctors_Nil:
  "(active_doctors store did = []) =
     (\<not> (\<exists>d \<in> set (doctors store). d_id d = did \<and> d_is_active d = 1))"
  by (simp add: active_doctors_def filter_empty_conv)

text \<open>
  The handler called with a text date, as its own code expects. When the date parses and
  has an hour, and the hours of the doctor row parse, it answers with the error of the first
  of the five checks that fails (doctor, future date, working hours \<open>[open, close)\<close>,
  doctor's slot, patient's slot) and leaves the store as it was; a cancelled appointment
  occupies no slot. When no check fails it inserts the appointment if the identity carries
  the \<^verbatim>\<open>id\<close> it reads as the patient, and answers 500 if not. The route never calls the
  handler this way: see \<open>post_appointment\<close>.
\<close>

lemma handler_on_text_date:
  assumes "appointment_date body = DateText text"
    and "date_ms text = Some t"
    and "at_index (split_on CHR ''T'' text) 1 = Some time"
    and "hour_part time = Some h"
    and "\<And>d ds. active_doctors store (doctor_id body) = d # ds
           \<Longrightarrow> hour_part (d_open_hour d) = Some oh \<and> hour_part (d_close_hour d) = Some ch"
  shows "create_appointment date_ms now store user [] body =
     (case first_failing_check
             \<lparr>doctor_active =
                (\<exists>d \<in> set (doctors store). d_id d = doctor_id body \<and> d_is_active d = 1),
              in_future = (now < t), hour = h, open_hour = oh, close_hour = ch,
              doctor_slot_taken =
                (\<exists>a \<in> set (appointments store). a_doctor_id a = doctor_id body
                   \<and> a_appointment_date a = text
                   \<and> a_status a \<noteq> ''cancelled''),
              patient_slot_taken =
                (\<exists>a \<in> set (appointments store). Some (a_patient_id a) = id_field user
                   \<and> a_appointment_date a = text
                   \<and> a_status a \<noteq> ''cancelled'')\<rparr> of
        Some e \<Rightarrow> (store, error_reply e)
      | None \<Rightarrow>
          (case id_field user of
             None \<Rightarrow> (store, failed_to_book)
           | Some pid \<Rightarrow>
               (insert_appointment store pid (doctor_id body) text (reason body),
                \<lparr>status = 201, success = True, message = ''Appointment booked successfully'',
                 data = Booked (select_created
                   (insert_appointment store pid (doctor_id body) text (reason body))
                   (insertId (appointments store)))\<rparr>)))"
proof (cases "active_doctors store (doctor_id body)")
  case Nil
  then have "\<not> (\<exists>d \<in> set (doctors store). d_id d = doctor_id body \<and> d_is_active d = 1)"
    by (simp add: active_doctors_Nil)
  with Nil show ?thesis
    by (simp add: create_appointment_def first_failing_check_def error_reply_def)
next
  case (Cons d ds)
  then have found: "\<exists>d \<in> set (doctors store). d_id d = doctor_id body \<and> d_is_active d = 1"
    using active_doctors_Nil [of store "doctor_id body"] by simp
  from assms(5) [OF Cons] have hours:
    "hour_part (d_open_hour d) = Some oh" "hour_part (d_close_hour d) = Some ch"
    by simp_all
  from assms(1,2) have parsed: "appointmentDateTime date_ms (appointment_date body) = Some t"
    by (simp add: appointmentDateTime_def)
  show ?thesis
  proof (cases "now < t")
    case False
    with Cons found parsed show ?thesis
      by (simp add: create_appointment_def first_failing_check_def error_reply_def js_le_def)
  next
    case future: True
    show ?thesis
    proof (cases "oh \<le> h \<and> h < ch")
      case False
      with Cons found future parsed assms(1,3,4) hours show ?thesis
        by (auto simp: create_appointment_def first_failing_check_def error_reply_def
            js_le_def js_lt_def js_ge_def)
    next
      case True
      with Cons found future parsed assms(1,3,4) hours
      have "create_appointment date_ms now store user [] body
              = book_slot store (id_field user)
                  \<lparr>doctor_id = doctor_id body, appointment_date = text, reason = reason body\<rparr>"
        by (auto simp: create_appointment_def js_le_def js_lt_def js_ge_def patient_id_def)
      moreover note book_slot_cases [of store "id_field user"
          "\<lparr>doctor_id = doctor_id body, appointment_date = text, reason = reason body\<rparr>"]
      ultimately show ?thesis
        using True found future
        by (auto simp: first_failing_check_def split: option.splits)
    qed
  qed
qed

lemma hour_10: "hour_part ''10:00:00'' = Some 10"
  by (simp add: hour_part_def parseInt_def is_space_def decimal_digit_def from_digits_def)

lemma hour_09: "hour_part ''09:00:00'' = Some 9"
  by (simp add: hour_part_def parseInt_def is_space_def decimal_digit_def from_digits_def)

lemma hour_17: "hour_part ''17:00:00'' = Some 17"
  by (simp add: hour_part_def parseInt_def is_space_def decimal_digit_def from_digits_def)

lemma monday_time: "at_index (split_on CHR ''T'' monday_10) 1 = Some ''10:00:00''"
  by (simp add: monday_10_def at_index_def)

lemma clinic_doctor: "active_doctors clinic 7 = [doctor7]"
  by (simp add: active_doctors_def clinic_def doctor7_def)

text \<open>
  So called, with an identity that carries \<^verbatim>\<open>id\<close>, the handler books Alice's Monday
  appointment.
\<close>

lemma handler_books_text_date:
  "create_appointment (parse_only monday_10 monday_10_ms) week_before_ms clinic
     \<lparr>userId = Some 1, email = Some ''alice@example.org'', name = Some ''Alice'',
      type = Some ''patient'', id_field = Some 1, role = Some ''patient''\<rparr> []
     \<lparr>doctor_id = 7, appointment_date = DateText monday_10, reason = ''checkup''\<rparr>
   = (clinic\<lparr>appointments := [alice_visit]\<rparr>,
      \<lparr>status = 201, success = True, message = ''Appointment booked successfully'',
       data = Booked (Some \<lparr>b_id = 1, b_patient_id = 1, b_doctor_id = 7,
                b_appointment_date = monday_10, b_status = ''scheduled'', b_notes = None,
                b_patient_name = Some ''Alice'', b_patient_email = Some ''alice@example.org'',
                b_doctor_name = Some ''Grey'', b_specialization = Some ''cardiology'',
                b_doctor_email = Some ''grey@example.org''\<rparr>)\<rparr>)"
proof -
  have h0: "appointment_date
              \<lparr>doctor_id = 7, appointment_date = DateText monday_10, reason = ''checkup''\<rparr>
            = DateText monday_10"
    by simp
  have h1: "parse_only monday_10 monday_10_ms monday_10 = Some monday_10_ms"
    by (simp add: parse_only_def)
  have h4: "\<And>d ds. active_doctors clinic
                (doctor_id \<lparr>doctor_id = 7, appointment_date = DateText monday_10,
                            reason = ''checkup''\<rparr>) = d # ds
              \<Longrightarrow> hour_part (d_open_hour d) = Some 9 \<and> hour_part (d_close_hour d) = Some 17"
    using hour_09 hour_17 by (simp add: clinic_doctor doctor7_def)
  show ?thesis
    using handler_on_text_date [where date_ms = "parse_only monday_10 monday_10_ms"
        and store = clinic and now = week_before_ms
        and user = "\<lparr>userId = Some 1, email = Some ''alice@example.org'', name = Some ''Alice'',
                      type = Some ''patient'', id_field = Some 1, role = Some ''patient''\<rparr>",
        OF h0 h1 monday_time hour_10 h4]
    by (simp add: first_failing_check_def clinic_def doctor7_def
        week_before_ms_def monday_10_ms_def insert_appointment_def insertId_def
        select_created_def alice_visit_def alice_def bob_def)
qed

section \<open>What the middleware hands to the handlers\<close>

lemma filter_Cons_mem: "filter P xs = y # ys \<Longrightarrow> y \<in> set xs"
proof -
  assume "filter P xs = y # ys"
  then have "y \<in> set (filter P xs)" by simp
  then show ?thesis by simp
qed

lemma gate_identity:
  assumes "snd (authenticateToken verify store headers) = Next u"
  shows "\<exists>row \<in> set (users store).
           u = \<lparr>userId = Some (u_id row), email = Some (u_email row), name = Some (u_name row),
                type = Some (u_type row), id_field = None, role = None\<rparr>"
proof (cases "headers ''authorization''")
  case None
  with assms show ?thesis
    by (simp add: authenticateToken_def)
next
  case (Some h)
  show ?thesis
  proof (cases "falsy (at_index (split_on CHR '' '' h) 2)")
    case True
    with Some assms show ?thesis
      by (simp add: authenticateToken_def)
  next
    case False
    show ?thesis
    proof (cases "verify (the (at_index (split_on CHR '' '' h) 2))")
      case (Throws e)
      with Some False assms show ?thesis
        by (simp add: authenticateToken_def)
    next
      case (Decoded d)
      show ?thesis
      proof (cases "filter (\<lambda>u. u_id u = c_userId d) (users store)")
        case Nil
        with Some False Decoded assms show ?thesis
          by (simp add: authenticateToken_def)
      next
        case (Cons row rows)
        then have "row \<in> set (users store)"
          by (rule filter_Cons_mem)
        moreover from Some False Decoded Cons assms
        have "u = \<lparr>userId = Some (u_id row), email = Some (u_email row),
                    name = Some (u_name row), type = Some (u_type row),
                    id_field = None, role = None\<rparr>"
          by (simp add: authenticateToken_def)
        ultimately show ?thesis ..
      qed
    qed
  qed
qed

lemma auth_catch_status: "status (auth_catch e) = 401 \<or> status (auth_catch e) = 500"
  by (simp add: auth_catch_def reply_def)

lemma gate_reply_status:
  assumes "snd (authenticateToken verify store headers) = Reply r"
  shows "status r = 401 \<or> status r = 500"
proof (cases "headers ''authorization''")
  case None
  with assms show ?thesis
    using auth_catch_status [of "''TypeError''"] by (auto simp: authenticateToken_def)
next
  case (Some h)
  show ?thesis
  proof (cases "falsy (at_index (split_on CHR '' '' h) 2)")
    case True
    with Some assms show ?thesis
      by (auto simp: authenticateToken_def reply_def)
  next
    case False
    show ?thesis
    proof (cases "verify (the (at_index (split_on CHR '' '' h) 2))")
      case (Throws e)
      with Some False assms show ?thesis
        using auth_catch_status [of e] by (auto simp: authenticateToken_def)
    next
      case (Decoded d)
      with Some False assms show ?thesis
        by (cases "filter (\<lambda>u. u_id u = c_userId d) (users store)")
          (auto simp: authenticateToken_def reply_def)
    qed
  qed
qed

lemma alice_through_gate:
  "snd (authenticateToken (decode_as alice_claims) clinic three_part_header) =
     Next \<lparr>userId = Some 1, email = Some ''alice@example.org'', name = Some ''Alice'',
           type = Some ''patient'', id_field = None, role = None\<rparr>"
  by (simp add: authenticateToken_def three_part_header_def at_index_def falsy_def
      decode_as_def alice_claims_def clinic_def alice_def bob_def)

section \<open>Booking through the middleware\<close>

lemma book_slot_no_id:
  "fst (book_slot store None body) = store"
  "status (snd (book_slot store None body)) \<noteq> 201"
  by (simp_all add: book_slot_def failed_to_book_def reply_def)

lemma create_appointment_without_id:
  assumes "id_field user = None"
  shows "fst (create_appointment date_ms now store user errors body) = store
    \<and> status (snd (create_appointment date_ms now store user errors body)) \<noteq> 201"
  using assms
  by (simp add: create_appointment_def patient_id_def reply_def failed_to_book_def
      book_slot_no_id Let_def split: list.splits option.splits date_value.splits)

lemma post_appointment_never_books:
  "fst (post_appointment verify date_ms now store headers errors body) = store
   \<and> status (snd (post_appointment verify date_ms now store headers errors body)) \<noteq> 201"
proof (cases "snd (authenticateToken verify store headers)")
  case (Next u)
  then have "id_field u = None"
    using gate_identity [OF Next] by auto
  with Next show ?thesis
    using create_appointment_without_id [of u date_ms now store errors]
    by (simp add: post_appointment_def)
next
  case (Reply r)
  then show ?thesis
    using gate_reply_status [OF Reply] by (auto simp: post_appointment_def)
qed

lemma monday_sanitized:
  "toDate (parse_only monday_10 monday_10_ms) monday_10 = DateObject monday_10_ms"
  by (simp add: toDate_def parse_only_def)

text \<open>
  C3. Alice, a patient, sends a token the middleware accepts and asks for doctor 7, who is
  active and works from 09:00 to 17:00, on a Monday at 10:00 a week ahead, with no
  appointment in the store: the booking is to succeed with 201 and a scheduled row. The
  code answers 500 and inserts nothing, as \<open>post_appointment_never_books\<close> shows for every
  request. The sanitizer has made the date a \<^verbatim>\<open>Date\<close>, which has no \<^verbatim>\<open>.split\<close>; and the
  identity has no \<^verbatim>\<open>id\<close>, so even the handler called with the text would read an
  \<^verbatim>\<open>undefined\<close> \<^verbatim>\<open>patient_id\<close> and its patient query would throw
  (\<open>create_appointment_without_id\<close>).
\<close>

theorem booking_through_gate_fails:
  "post_appointment (decode_as alice_claims) (parse_only monday_10 monday_10_ms) week_before_ms
     clinic three_part_header [] checkup
   = (clinic, \<lparr>status = 500, success = False, message = ''Failed to book appointment'',
               data = NoData\<rparr>)"
proof -
  have "create_appointment (parse_only monday_10 monday_10_ms) week_before_ms clinic
          \<lparr>userId = Some 1, email = Some ''alice@example.org'', name = Some ''Alice'',
           type = Some ''patient'', id_field = None, role = None\<rparr> []
          \<lparr>doctor_id = 7, appointment_date = DateObject monday_10_ms, reason = ''checkup''\<rparr>
        = (clinic, failed_to_book)"
    using clinic_doctor
    by (simp add: create_appointment_def appointmentDateTime_def js_le_def
        week_before_ms_def monday_10_ms_def)
  then show ?thesis
    by (simp add: post_appointment_def alice_through_gate failed_to_book_def reply_def
        checkup_def monday_sanitized)
qed

section \<open>The checks the route never reaches\<close>

text \<open>
  Whatever the sanitizer made of the date, the handler stops at the latest where it splits
  the date: it leaves the store as it was and answers with the validation errors, with 404
  for the doctor, with 400 for a date not in the future, or with 500.
\<close>

lemma create_appointment_sanitized:
  "fst (create_appointment date_ms now store user errors
          \<lparr>doctor_id = did, appointment_date = toDate date_ms text, reason = why\<rparr>) = store
   \<and> snd (create_appointment date_ms now store user errors
          \<lparr>doctor_id = did, appointment_date = toDate date_ms text, reason = why\<rparr>)
       \<in> {\<lparr>status = 400, success = False, message = ''Validation errors'',
            data = Errors errors\<rparr>,
           reply 404 False ''Doctor not found'',
           reply 400 False ''Appointment must be scheduled for a future date'',
           failed_to_book}"
  by (simp add: create_appointment_def toDate_def split: list.splits option.splits)

lemma later_checks_distinct:
  assumes "e \<in> {OutsideWorkingHours, SlotAlreadyBooked, PatientDoubleBooking}"
  shows "error_reply e \<noteq> \<lparr>status = 400, success = False, message = ''Validation errors'',
                            data = Errors errors\<rparr>"
    and "error_reply e \<noteq> reply 404 False ''Doctor not found''"
    and "error_reply e \<noteq> reply 400 False ''Appointment must be scheduled for a future date''"
    and "error_reply e \<noteq> failed_to_book"
    and "status (error_reply e) = 400"
  using assms by (auto simp: error_reply_def reply_def failed_to_book_def)

text \<open>
  So no request to the route is ever answered with the error of the third, fourth or fifth
  check, and none is ever booked (\<open>post_appointment_never_books\<close>).
\<close>

lemma route_never_reports_later_checks:
  assumes "e \<in> {OutsideWorkingHours, SlotAlreadyBooked, PatientDoubleBooking}"
  shows "snd (post_appointment verify date_ms now store headers errors body) \<noteq> error_reply e"
proof (cases "snd (authenticateToken verify store headers)")
  case (Reply r)
  with gate_reply_status [OF Reply] later_checks_distinct(5) [OF assms] show ?thesis
    by (auto simp: post_appointment_def)
next
  case (Next u)
  with create_appointment_sanitized
    [of date_ms now store u errors "doctor_id body" "appointment_date body" "reason body"]
    later_checks_distinct(1) [OF assms, of errors] later_checks_distinct(2-4) [OF assms]
  show ?thesis
    by (auto simp: post_appointment_def)
qed

lemma tuesday_sanitized:
  "toDate (parse_only tuesday_08 tuesday_08_ms) tuesday_08 = DateObject tuesday_08_ms"
  by (simp add: toDate_def parse_only_def)

text \<open>
  C4. The five checks are to run in order, the first that fails answering with its own
  error. Alice, through the middleware, asks for doctor 7, who works from 09:00 to 17:00, the
  next morning at 08:00: the doctor exists and the date is in the future, so the third check
  is to answer 400 for a time outside the working hours. The code answers 500: the handler
  splits the date the sanitizer has turned into a \<^verbatim>\<open>Date\<close>, and the third, fourth and fifth
  checks are never run (\<open>route_never_reports_later_checks\<close>).
\<close>

theorem outside_hours_through_gate:
  "post_appointment (decode_as alice_claims) (parse_only tuesday_08 tuesday_08_ms) week_before_ms
     clinic three_part_header [] early_visit
   = (clinic, \<lparr>status = 500, success = False, message = ''Failed to book appointment'',
               data = NoData\<rparr>)"
proof -
  have "create_appointment (parse_only tuesday_08 tuesday_08_ms) week_before_ms clinic
          \<lparr>userId = Some 1, email = Some ''alice@example.org'', name = Some ''Alice'',
           type = Some ''patient'', id_field = None, role = None\<rparr> []
          \<lparr>doctor_id = 7, appointment_date = DateObject tuesday_08_ms, reason = ''checkup''\<rparr>
        = (clinic, failed_to_book)"
    using clinic_doctor
    by (simp add: create_appointment_def appointmentDateTime_def js_le_def
        week_before_ms_def tuesday_08_ms_def)
  then show ?thesis
    by (simp add: post_appointment_def alice_through_gate failed_to_book_def reply_def
        early_visit_def tuesday_sanitized)
qed

section \<open>Status changes\<close>

text \<open>
  The claim that no operation moves an appointment out of a terminal status fails: the
  status update sets a completed appointment to scheduled.
\<close>

theorem reopen_counterexample:
  "update_status (clinic\<lparr>appointments := [alice_visit\<lparr>a_status := ''completed''\<rparr>]\<rparr>) 1
     (Some ''scheduled'')
   = (clinic\<lparr>appointments := [alice_visit\<lparr>a_status := ''scheduled''\<rparr>]\<rparr>,
      \<lparr>status = 200, success = True, message = ''Appointment status updated successfully'',
       data = NoData\<rparr>)"
  by (simp add: update_status_def falsy_def clinic_def alice_visit_def reply_def)

lemma accepted_status:
  assumes "s \<in> {''scheduled'', ''completed'', ''canceled''}"
  shows "\<not> falsy (Some s)" and "s \<in> set [''scheduled'', ''completed'', ''canceled'']"
  using assms by (auto simp: falsy_def)

lemma update_status_found:
  assumes "s \<in> {''scheduled'', ''completed'', ''canceled''}"
    and "filter (\<lambda>a. a_id a = i) (appointments store) = ap # rest"
  shows "update_status store i (Some s) =
           (store\<lparr>appointments :=
                    map (\<lambda>a. if a_id a = i then a\<lparr>a_status := s\<rparr> else a) (appointments store)\<rparr>,
            reply 200 True ''Appointment status updated successfully'')"
  using accepted_status [OF assms(1)] assms(2) by (simp add: update_status_def)

lemma status_after_set:
  "a_id (if a_id x = i then x\<lparr>a_status := s\<rparr> else x) = i
     \<Longrightarrow> a_status (if a_id x = i then x\<lparr>a_status := s\<rparr> else x) = s"
  by (cases "a_id x = i") simp_all

lemma set_status_at:
  assumes "a \<in> set (map (\<lambda>a. if a_id a = i then a\<lparr>a_status := s\<rparr> else a) xs)"
    and "a_id a = i"
  shows "a_status a = s"
proof -
  from assms(1)
  have "a \<in> (\<lambda>a. if a_id a = i then a\<lparr>a_status := s\<rparr> else a) ` set xs"
    by (simp only: set_map)
  then obtain x where "a = (if a_id x = i then x\<lparr>a_status := s\<rparr> else x)"
    by (rule imageE)
  with assms(2) status_after_set [of x i s] show ?thesis
    by simp
qed

lemma cancelled_after_set:
  "a_id (if a_id x = i
         then (if falsy why then x\<lparr>a_status := ''cancelled''\<rparr>
               else x\<lparr>a_status := ''cancelled'', a_notes := why\<rparr>)
         else x) = i
   \<Longrightarrow> a_status (if a_id x = i
         then (if falsy why then x\<lparr>a_status := ''cancelled''\<rparr>
               else x\<lparr>a_status := ''cancelled'', a_notes := why\<rparr>)
         else x) = ''cancelled''"
  by (cases "a_id x = i"; cases "falsy why") simp_all

lemma set_cancelled_status:
  assumes "a \<in> set (appointments (set_cancelled store i why))" and "a_id a = i"
  shows "a_status a = ''cancelled''"
proof -
  from assms(1)
  have "a \<in> (\<lambda>a. if a_id a = i
         then (if falsy why then a\<lparr>a_status := ''cancelled''\<rparr>
               else a\<lparr>a_status := ''cancelled'', a_notes := why\<rparr>)
         else a) ` set (appointments store)"
    by (simp add: set_cancelled_def)
  then obtain x where "a = (if a_id x = i
         then (if falsy why then x\<lparr>a_status := ''cancelled''\<rparr>
               else x\<lparr>a_status := ''cancelled'', a_notes := why\<rparr>)
         else x)"
    by (rule imageE)
  with assms(2) cancelled_after_set [of x i why] show ?thesis
    by simp
qed

text \<open>
  C5, as the code has it. For an appointment that exists: cancelling leaves a cancelled or
  completed appointment as it is and answers 400; when cancelling succeeds the appointment
  was in neither status and is cancelled afterwards; the status update answers 200 and sets
  the status to the value asked for, one of \<^verbatim>\<open>scheduled\<close>, \<^verbatim>\<open>completed\<close>, \<^verbatim>\<open>canceled\<close>,
  whatever the status was.
\<close>

theorem status_changes:
  assumes "filter (\<lambda>a. a_id a = i) (appointments store) = ap # rest"
  shows "(a_status ap = ''cancelled'' \<or> a_status ap = ''completed'' \<longrightarrow>
            fst (cancel_appointment store user i why) = store
            \<and> status (snd (cancel_appointment store user i why)) = 400)
       \<and> (status (snd (cancel_appointment store user i why)) = 200 \<longrightarrow>
            a_status ap \<noteq> ''cancelled'' \<and> a_status ap \<noteq> ''completed''
            \<and> (\<forall>a \<in> set (appointments (fst (cancel_appointment store user i why))).
                  a_id a = i \<longrightarrow> a_status a = ''cancelled''))
       \<and> (s \<in> {''scheduled'', ''completed'', ''canceled''} \<longrightarrow>
            status (snd (update_status store i (Some s))) = 200
            \<and> (\<forall>a \<in> set (appointments (fst (update_status store i (Some s)))).
                  a_id a = i \<longrightarrow> a_status a = s))"
proof (intro conjI impI)
  assume "a_status ap = ''cancelled'' \<or> a_status ap = ''completed''"
  with assms show "fst (cancel_appointment store user i why) = store"
    by (auto simp: cancel_appointment_def)
next
  assume "a_status ap = ''cancelled'' \<or> a_status ap = ''completed''"
  with assms show "status (snd (cancel_appointment store user i why)) = 400"
    by (auto simp: cancel_appointment_def reply_def)
next
  assume ok: "status (snd (cancel_appointment store user i why)) = 200"
  with assms show "a_status ap \<noteq> ''cancelled''"
    by (auto simp: cancel_appointment_def reply_def)
  from ok assms show "a_status ap \<noteq> ''completed''"
    by (auto simp: cancel_appointment_def reply_def)
  from ok assms have res: "fst (cancel_appointment store user i why) = set_cancelled store i why"
    by (auto simp: cancel_appointment_def reply_def do_cancel_def cancel_denied_def
        split: if_splits option.splits)
  show "\<forall>a \<in> set (appointments (fst (cancel_appointment store user i why))).
          a_id a = i \<longrightarrow> a_status a = ''cancelled''"
  proof (intro ballI impI)
    fix a
    assume "a \<in> set (appointments (fst (cancel_appointment store user i why)))"
      and at: "a_id a = i"
    then have "a \<in> set (appointments (set_cancelled store i why))"
      by (simp only: res)
    then show "a_status a = ''cancelled''"
      using at by (rule set_cancelled_status)
  qed
next
  assume "s \<in> {''scheduled'', ''completed'', ''canceled''}"
  from update_status_found [OF this assms]
  show "status (snd (update_status store i (Some s))) = 200"
    by (simp add: reply_def)
next
  assume "s \<in> {''scheduled'', ''completed'', ''canceled''}"
  from update_status_found [OF this assms]
  have rows: "appointments (fst (update_status store i (Some s)))
                = map (\<lambda>a. if a_id a = i then a\<lparr>a_status := s\<rparr> else a) (appointments store)"
    by simp
  show "\<forall>a \<in> set (appointments (fst (update_status store i (Some s)))).
          a_id a = i \<longrightarrow> a_status a = s"
  proof (intro ballI impI)
    fix a
    assume "a \<in> set (appointments (fst (update_status store i (Some s))))"
      and at: "a_id a = i"
    then have "a \<in> set (map (\<lambda>a. if a_id a = i then a\<lparr>a_status := s\<rparr> else a)
                          (appointments store))"
      by (simp only: rows)
    then show "a_status a = s"
      using at by (rule set_status_at)
  qed
qed

theorem status_changes_witness:
  "cancel_appointment (clinic\<lparr>appointments := [alice_visit\<lparr>a_status := ''completed''\<rparr>]\<rparr>)
       \<lparr>userId = Some 1, email = Some ''alice@example.org'', name = Some ''Alice'',
        type = Some ''patient'', id_field = None, role = None\<rparr> 1 None
     = (clinic\<lparr>appointments := [alice_visit\<lparr>a_status := ''completed''\<rparr>]\<rparr>,
        \<lparr>status = 400, success = False, message = ''Cannot cancel completed appointment'',
         data = NoData\<rparr>)
   \<and> map a_status (appointments (fst (cancel_appointment (clinic\<lparr>appointments := [alice_visit]\<rparr>)
       \<lparr>userId = Some 1, email = Some ''alice@example.org'', name = Some ''Alice'',
        type = Some ''patient'', id_field = None, role = None\<rparr> 1 None)))
     = [''cancelled'']
   \<and> map a_status (appointments (fst (update_status
         (clinic\<lparr>appointments := [alice_visit]\<rparr>) 1 (Some ''completed''))))
     = [''completed'']"
proof -
  have h1: "filter (\<lambda>a. a_id a = 1)
              (appointments (clinic\<lparr>appointments := [alice_visit\<lparr>a_status := ''completed''\<rparr>]\<rparr>))
            = alice_visit\<lparr>a_status := ''completed''\<rparr> # []"
    by (simp add: alice_visit_def)
  have h2: "filter (\<lambda>a. a_id a = 1) (appointments (clinic\<lparr>appointments := [alice_visit]\<rparr>))
            = alice_visit # []"
    by (simp add: alice_visit_def)
  show ?thesis
    using status_changes [OF h1, where s = "''completed''" and why = None
        and user = "\<lparr>userId = Some 1, email = Some ''alice@example.org'', name = Some ''Alice'',
                      type = Some ''patient'', id_field = None, role = None\<rparr>"]
      status_changes [OF h2, where s = "''completed''" and why = None
        and user = "\<lparr>userId = Some 1, email = Some ''alice@example.org'', name = Some ''Alice'',
                      type = Some ''patient'', id_field = None, role = None\<rparr>"]
    by (simp add: cancel_appointment_def update_status_def do_cancel_def set_cancelled_def
        falsy_def reply_def clinic_def alice_visit_def)
qed

text \<open>
  C6. Bob, a patient who passed the middleware, cancels Alice's scheduled appointment. The
  cancellation is to be refused with 403; the code answers 200 and cancels it, because the
  identity has no \<^verbatim>\<open>role\<close> and neither permission check applies.
\<close>

theorem stranger_cancels:
  "put_cancel (decode_as bob_claims) (clinic\<lparr>appointments := [alice_visit]\<rparr>) three_part_header
     1 None
   = (clinic\<lparr>appointments := [alice_visit\<lparr>a_status := ''cancelled''\<rparr>]\<rparr>,
      \<lparr>status = 200, success = True, message = ''Appointment cancelled successfully'',
       data = NoData\<rparr>)"
proof -
  have "snd (authenticateToken (decode_as bob_claims) (clinic\<lparr>appointments := [alice_visit]\<rparr>)
               three_part_header)
        = Next \<lparr>userId = Some 2, email = Some ''bob@example.org'', name = Some ''Bob'',
                type = Some ''patient'', id_field = None, role = None\<rparr>"
    by (simp add: authenticateToken_def three_part_header_def at_index_def falsy_def
        decode_as_def bob_claims_def clinic_def alice_def bob_def)
  then show ?thesis
    by (simp add: put_cancel_def cancel_appointment_def do_cancel_def set_cancelled_def
        falsy_def reply_def clinic_def alice_visit_def)
qed

section \<open>The handlers on the identity the middleware attaches\<close>

lemma cancel_without_role:
  assumes "role user = None"
  shows "cancel_appointment store user i why =
           (case filter (\<lambda>a. a_id a = i) (appointments store) of
              [] \<Rightarrow> (store, reply 404 False ''Appointment not found'')
            | ap # _ \<Rightarrow>
                if a_status ap = ''cancelled''
                then (store, reply 400 False ''Appointment is already cancelled'')
                else if a_status ap = ''completed''
                then (store, reply 400 False ''Cannot cancel completed appointment'')
                else do_cancel store i why)"
  using assms by (simp add: cancel_appointment_def split: list.splits)

lemma role_blind:
  assumes "role user = None" and "r \<noteq> ''patient''" and "r \<noteq> ''doctor''"
  shows "cancel_appointment store user i why = cancel_appointment store (user\<lparr>role := Some r\<rparr>) i why"
    and "get_appointment store user i = get_appointment store (user\<lparr>role := Some r\<rparr>) i"
    and "appointments_query user status_q = appointments_query (user\<lparr>role := Some r\<rparr>) status_q"
    and "stats_params user = stats_params (user\<lparr>role := Some r\<rparr>)"
  using assms
  by (simp_all add: cancel_appointment_def get_appointment_def appointments_query_def
      stats_params_def split: list.splits)

text \<open>
  C10. The identity the middleware attaches has \<^verbatim>\<open>userId\<close>, \<^verbatim>\<open>email\<close>, \<^verbatim>\<open>name\<close> and \<^verbatim>\<open>type\<close>
  and neither \<^verbatim>\<open>id\<close> nor \<^verbatim>\<open>role\<close>. So the booking handler reads an absent \<^verbatim>\<open>patient_id\<close>,
  the listing takes the branch by patient with an \<^verbatim>\<open>undefined\<close> parameter, the permission
  checks of cancelling and viewing never deny, the statistics are not narrowed to a doctor,
  and each of these handlers does what it does for a role that is none of \<^verbatim>\<open>patient\<close>,
  \<^verbatim>\<open>doctor\<close> and \<^verbatim>\<open>admin\<close>.
\<close>

theorem gate_identity_has_no_id_or_role:
  assumes "snd (authenticateToken verify store headers) = Next u"
  shows "userId u \<noteq> None \<and> email u \<noteq> None \<and> name u \<noteq> None \<and> type u \<noteq> None
     \<and> id_field u = None \<and> role u = None
     \<and> patient_id u = None
     \<and> q_listing (appointments_query u status_q) = ByPatient
     \<and> q_params (appointments_query u None) = [BUndefined]
     \<and> status (snd (cancel_appointment store' u i why)) \<noteq> 403
     \<and> status (get_appointment store' u i) \<noteq> 403
     \<and> stats_params u = []
     \<and> (r \<notin> {''patient'', ''doctor'', ''admin''} \<longrightarrow>
          cancel_appointment store' u i why = cancel_appointment store' (u\<lparr>role := Some r\<rparr>) i why
          \<and> get_appointment store' u i = get_appointment store' (u\<lparr>role := Some r\<rparr>) i
          \<and> appointments_query u status_q = appointments_query (u\<lparr>role := Some r\<rparr>) status_q
          \<and> stats_params u = stats_params (u\<lparr>role := Some r\<rparr>))"
proof -
  from gate_identity [OF assms] obtain row where
    "row \<in> set (users store)" and
    u: "u = \<lparr>userId = Some (u_id row), email = Some (u_email row), name = Some (u_name row),
             type = Some (u_type row), id_field = None, role = None\<rparr>"
    by (rule bexE)
  then have no_role: "role u = None" and no_id: "id_field u = None"
    by simp_all
  have fields: "userId u \<noteq> None \<and> email u \<noteq> None \<and> name u \<noteq> None \<and> type u \<noteq> None"
    using u by simp
  have listing: "q_listing (appointments_query u status_q) = ByPatient"
    using no_role by (simp add: appointments_query_def Let_def)
  have params: "q_params (appointments_query u None) = [BUndefined]"
    using no_id by (simp add: appointments_query_def falsy_def bind_id_def)
  have cancel: "status (snd (cancel_appointment store' u i why)) \<noteq> 403"
    using no_role
    by (simp add: cancel_without_role do_cancel_def reply_def split: list.splits)
  have view: "status (get_appointment store' u i) \<noteq> 403"
    using no_role by (simp add: get_appointment_def reply_def split: list.splits)
  have stats: "stats_params u = []"
    using no_role by (simp add: stats_params_def)
  have blind: "r \<notin> {''patient'', ''doctor'', ''admin''} \<longrightarrow>
          cancel_appointment store' u i why = cancel_appointment store' (u\<lparr>role := Some r\<rparr>) i why
          \<and> get_appointment store' u i = get_appointment store' (u\<lparr>role := Some r\<rparr>) i
          \<and> appointments_query u status_q = appointments_query (u\<lparr>role := Some r\<rparr>) status_q
          \<and> stats_params u = stats_params (u\<lparr>role := Some r\<rparr>)"
  proof
    assume "r \<notin> {''patient'', ''doctor'', ''admin''}"
    then have "r \<noteq> ''patient''" and "r \<noteq> ''doctor''" by simp_all
    from role_blind [OF no_role this] show
      "cancel_appointment store' u i why = cancel_appointment store' (u\<lparr>role := Some r\<rparr>) i why
       \<and> get_appointment store' u i = get_appointment store' (u\<lparr>role := Some r\<rparr>) i
       \<and> appointments_query u status_q = appointments_query (u\<lparr>role := Some r\<rparr>) status_q
       \<and> stats_params u = stats_params (u\<lparr>role := Some r\<rparr>)"
      by blast
  qed
  from fields no_id no_role listing params cancel view stats blind show ?thesis
    by (simp only: patient_id_def simp_thms)
qed


theorem gate_identity_has_no_id_or_role_witness:
  "id_field \<lparr>userId = Some 1, email = Some ''alice@example.org'', name = Some ''Alice'',
             type = Some ''patient'', id_field = None, role = None\<rparr> = None
   \<and> patient_id \<lparr>userId = Some 1, email = Some ''alice@example.org'', name = Some ''Alice'',
             type = Some ''patient'', id_field = None, role = None\<rparr> = None
   \<and> cancel_appointment (clinic\<lparr>appointments := [alice_visit]\<rparr>)
         \<lparr>userId = Some 1, email = Some ''alice@example.org'', name = Some ''Alice'',
          type = Some ''patient'', id_field = None, role = None\<rparr> 1 None
       = cancel_appointment (clinic\<lparr>appointments := [alice_visit]\<rparr>)
         \<lparr>userId = Some 1, email = Some ''alice@example.org'', name = Some ''Alice'',
          type = Some ''patient'', id_field = None, role = Some ''nurse''\<rparr> 1 None"
proof -
  have outside: "''nurse'' \<notin> {''patient'', ''doctor'', ''admin''}"
    by simp
  show ?thesis
    using gate_identity_has_no_id_or_role [OF alice_through_gate,
        where r = "''nurse''" and store' = "clinic\<lparr>appointments := [alice_visit]\<rparr>"
          and i = 1 and why = None]
      outside
    by simp
qed

end
